theory Spec2Isabelle
  imports
    Complex_Main
    "HOL-Library.Char_ord"
    "HOL-Library.List_Lexorder"
    "HOL-Library.Multiset"
    "HOL-Library.AList"
    "HOL-Library.Word"
begin

unbundle bit_operations_syntax

chapter \<open>The theme token compiler (lib/themes/makeBraidTheme.ts)\<close>

section \<open>JavaScript values used by the compiler\<close>

text \<open>
  A JavaScript string is modelled as a \<^typ>\<open>string\<close> (the bytes of its UTF-8 form). A
  value held by a colour object is \<^verbatim>\<open>undefined\<close>, \<^verbatim>\<open>null\<close> or a string, and the object
  is the list of its own keys with their values. \<^verbatim>\<open>!x\<close> holds of \<^verbatim>\<open>undefined\<close>, of
  \<^verbatim>\<open>null\<close> and of the empty string.
\<close>

datatype jsValue = Undefined | Null | Str (strOf: string)

definition truthy :: "jsValue \<Rightarrow> bool" where
  "truthy v = (case v of Str s \<Rightarrow> s \<noteq> [] | _ \<Rightarrow> False)"

type_synonym colorObject = "(string \<times> jsValue) list"

text \<open>
  \<^verbatim>\<open>obj[key]\<close> on such an object: the value of an own key, \<^verbatim>\<open>undefined\<close> when the key
  is absent. The keys looked up this way are colour names and strings printed from
  functions, never the name of a member of \<^verbatim>\<open>Object.prototype\<close>, so what the object
  inherits does not show in these lookups.
\<close>

definition getProp :: "colorObject \<Rightarrow> string \<Rightarrow> jsValue" where
  "getProp obj k = (case map_of obj k of None \<Rightarrow> Undefined | Some v \<Rightarrow> v)"

text \<open>\<^verbatim>\<open>String(x)\<close> inside a template literal.\<close>

definition templateString :: "jsValue \<Rightarrow> string" where
  "templateString v =
    (case v of Undefined \<Rightarrow> ''undefined'' | Null \<Rightarrow> ''null'' | Str s \<Rightarrow> s)"

text \<open>
  An object literal inherits the members of \<^verbatim>\<open>Object.prototype\<close>: \<^verbatim>\<open>key in obj\<close> holds of
  their names too, and \<^verbatim>\<open>obj[key]\<close> then yields the inherited member, a function
  (for \<^verbatim>\<open>__proto__\<close> the prototype object itself). Used as a key, such a member is
  turned into a string, here as V8 prints it.
\<close>

definition objectPrototypeKeys :: "string list" where
  "objectPrototypeKeys =
    [''constructor'', ''__defineGetter__'', ''__defineSetter__'', ''hasOwnProperty'',
     ''__lookupGetter__'', ''__lookupSetter__'', ''isPrototypeOf'', ''propertyIsEnumerable'',
     ''toString'', ''valueOf'', ''__proto__'', ''toLocaleString'']"

definition inheritedMemberString :: "string \<Rightarrow> string" where
  "inheritedMemberString k =
    (if k = ''__proto__'' then ''[object Object]''
     else ''function '' @ (if k = ''constructor'' then ''Object'' else k)
          @ ''() { [native code] }'')"

text \<open>\<^verbatim>\<open>/^brandAccent/.test(name)\<close> and \<^verbatim>\<open>name.startsWith('use')\<close>.\<close>

definition startsWith :: "string \<Rightarrow> string \<Rightarrow> bool" where
  "startsWith p s = (take (length p) s = p)"

datatype jsError =
    Error string
  | TypeError string
  | Diagnostic string

section \<open>The colour functions the compiler imports\<close>

text \<open>
  \<^verbatim>\<open>darken\<close> and \<^verbatim>\<open>lighten\<close> come from the package polished, \<^verbatim>\<open>isLight\<close> and
  \<^verbatim>\<open>getLightVariant\<close> from \<^verbatim>\<open>lib/utils\<close>; none of them is among the sources, so the
  compiler is modelled over any functions of these types. The amounts \<^verbatim>\<open>0.1\<close> and
  \<^verbatim>\<open>0.05\<close> are the source's decimal literals. \<^verbatim>\<open>isLight\<close> does not answer on every
  string: on one it cannot read as a colour it throws, and \<^verbatim>\<open>isLightThrows\<close> is the
  error it then throws; \<^verbatim>\<open>isLight\<close> is its answer on the others.
\<close>

record colorLib =
  isLight :: "string \<Rightarrow> bool"
  isLightThrows :: "string \<Rightarrow> jsError option"
  darken :: "rat \<Rightarrow> string \<Rightarrow> string"
  lighten :: "rat \<Rightarrow> string \<Rightarrow> string"
  getLightVariant :: "string \<Rightarrow> string"

section \<open>Token trees\<close>

text \<open>
  Of \<^verbatim>\<open>TreatTokens\<close> the model keeps what \<^verbatim>\<open>makeWebFonts\<close>, the colour part of
  \<^verbatim>\<open>decorateTokens\<close> and \<^verbatim>\<open>makeRuntimeTokens\<close> read. The font-weight table is kept in
  the order its keys were written, which is the order \<^verbatim>\<open>values\<close> returns. A weight is
  modelled as a natural number; the model speaks for the weights that are whole numbers
  from 0 to \<^verbatim>\<open>Number.MAX_SAFE_INTEGER\<close> (see \<open>safeInteger\<close> below), and says nothing of
  fractional, negative or larger weights.
\<close>

record typographyTokens =
  fontFamily :: string
  webFont :: "string option"
  fontWeight :: "(string \<times> nat) list"

record backgroundTokens =
  bg_body :: string
  bg_brand :: string
  bg_input :: string
  bg_inputDisabled :: string
  bg_brandAccent :: string
  bg_formAccent :: string
  bg_formAccentDisabled :: string
  bg_selection :: string
  bg_info :: string
  bg_promote :: string
  bg_card :: string
  bg_critical :: string
  bg_caution :: string
  bg_positive :: string
  bg_neutral :: string

record 'bg colorTokens =
  foreground :: colorObject
  background :: 'bg

record 'bg tokens =
  name :: string
  displayName :: string
  typography :: typographyTokens
  color :: "'bg colorTokens"

text \<open>
  \<^verbatim>\<open>TreatTokens\<close> is the tree a theme author writes, with the fifteen background
  colours its type declares; \<^verbatim>\<open>TreatTheme\<close> is the decorated tree, whose background
  object \<^verbatim>\<open>makeRuntimeTokens\<close> walks key by key.
\<close>

type_synonym treatTokens = "backgroundTokens tokens"
type_synonym treatTheme = "colorObject tokens"

section \<open>decorateTokens: derived colours\<close>

definition getActiveColor :: "colorLib \<Rightarrow> string \<Rightarrow> string" where
  "getActiveColor lib x = (if isLight lib x then darken lib 0.1 x else darken lib 0.05 x)"

definition getHoverColor :: "colorLib \<Rightarrow> string \<Rightarrow> string" where
  "getHoverColor lib x = (if isLight lib x then darken lib 0.05 x else lighten lib 0.05 x)"

text \<open>
  The decorated background lists the fifteen base keys, here in the order of the type
  declaration (the source keeps the order of the theme's own object), and then the
  twelve derived keys in the order of the source. The decoration is modelled for base
  colours on which the colour functions answer: where one of them throws,
  \<^verbatim>\<open>decorateTokens\<close> throws with it and \<^verbatim>\<open>makeRuntimeTokens\<close> is not reached.
\<close>

definition decorateBackground :: "colorLib \<Rightarrow> backgroundTokens \<Rightarrow> colorObject" where
  "decorateBackground lib b =
    [(''body'', Str (bg_body b)),
     (''brand'', Str (bg_brand b)),
     (''input'', Str (bg_input b)),
     (''inputDisabled'', Str (bg_inputDisabled b)),
     (''brandAccent'', Str (bg_brandAccent b)),
     (''formAccent'', Str (bg_formAccent b)),
     (''formAccentDisabled'', Str (bg_formAccentDisabled b)),
     (''selection'', Str (bg_selection b)),
     (''info'', Str (bg_info b)),
     (''promote'', Str (bg_promote b)),
     (''card'', Str (bg_card b)),
     (''critical'', Str (bg_critical b)),
     (''caution'', Str (bg_caution b)),
     (''positive'', Str (bg_positive b)),
     (''neutral'', Str (bg_neutral b)),
     (''formAccentActive'', Str (getActiveColor lib (bg_formAccent b))),
     (''formAccentHover'', Str (getHoverColor lib (bg_formAccent b))),
     (''brandAccentActive'', Str (getActiveColor lib (bg_brandAccent b))),
     (''brandAccentHover'', Str (getHoverColor lib (bg_brandAccent b))),
     (''criticalActive'', Str (getActiveColor lib (bg_critical b))),
     (''criticalHover'', Str (getHoverColor lib (bg_critical b))),
     (''infoLight'', Str (getLightVariant lib (bg_info b))),
     (''promoteLight'', Str (getLightVariant lib (bg_promote b))),
     (''criticalLight'', Str (getLightVariant lib (bg_critical b))),
     (''positiveLight'', Str (getLightVariant lib (bg_positive b))),
     (''cautionLight'', Str (getLightVariant lib (bg_caution b))),
     (''neutralLight'', Str (getLightVariant lib (bg_neutral b)))]"

text \<open>
  The typography part of \<^verbatim>\<open>decorateTokens\<close> rewrites the text sizes only; the web font
  and the weight table pass through.
\<close>

definition decorateTokens :: "colorLib \<Rightarrow> treatTokens \<Rightarrow> treatTheme" where
  "decorateTokens lib treatTokens =
    \<lparr> name = name treatTokens,
      displayName = displayName treatTokens,
      typography = typography treatTokens,
      color = \<lparr> foreground = foreground (color treatTokens),
                background = decorateBackground lib (background (color treatTokens)) \<rparr> \<rparr>"

section \<open>makeWebFonts\<close>


definition digitChar :: "nat \<Rightarrow> char" where
  "digitChar d = char_of (48 + d)"

function stringOfNat :: "nat \<Rightarrow> string" where
  "stringOfNat n =
    (if n < 10 then [digitChar n] else stringOfNat (n div 10) @ [digitChar (n mod 10)])"
  by pat_completeness auto
termination
  by (relation "measure (\<lambda>n. n)") auto

declare stringOfNat.simps [simp del]

text \<open>
  \<^verbatim>\<open>weights.sort()\<close> is called with no comparator, so it orders the numbers by their
  strings, code unit by code unit; \<^verbatim>\<open>values\<close> lists the table's values in key order.
\<close>

definition jsSort :: "nat list \<Rightarrow> nat list" where
  "jsSort ws = sort_key stringOfNat ws"

definition values_of :: "(string \<times> 'v) list \<Rightarrow> 'v list" where
  "values_of obj = map snd obj"

fun joinWith :: "string \<Rightarrow> string list \<Rightarrow> string" where
  "joinWith sep [] = []"
| "joinWith sep [x] = x"
| "joinWith sep (x # y # ys) = x @ sep @ joinWith sep (y # ys)"

text \<open>
  \<^verbatim>\<open>encodeURIComponent\<close> keeps letters, digits and \<^verbatim>\<open>- _ . ! ~ * ' ( )\<close> and writes
  every other byte of the UTF-8 form as a percent sign and two upper-case hex digits.
\<close>

definition uriUnreserved :: "char \<Rightarrow> bool" where
  "uriUnreserved c =
    (c \<in> set (''ABCDEFGHIJKLMNOPQRSTUVWXYZabcdefghijklmnopqrstuvwxyz0123456789-_.!~*()''
              @ [CHR 0x27]))"

definition hexDigit :: "nat \<Rightarrow> char" where
  "hexDigit d = ''0123456789ABCDEF'' ! (d mod 16)"

definition encodeChar :: "char \<Rightarrow> string" where
  "encodeChar c =
    (if uriUnreserved c then [c]
     else [CHR ''%'', hexDigit (of_char c div 16), hexDigit (of_char c mod 16)])"

definition encodeURIComponent :: "string \<Rightarrow> string" where
  "encodeURIComponent s = concat (map encodeChar s)"

record webFontLink =
  linkTag :: string

definition webFontLinkTag :: "string \<Rightarrow> nat list \<Rightarrow> string" where
  \<open>webFontLinkTag nm sortedWeights =
    ''<link href="https://fonts.googleapis.com/css?family=''
    @ encodeURIComponent (nm @ '':'' @ joinWith '','' (map stringOfNat sortedWeights))
    @ ''" rel="stylesheet" />''\<close>

definition makeWebFonts :: "'bg tokens \<Rightarrow> webFontLink list" where
  "makeWebFonts tokens =
    (case webFont (typography tokens) of
       None \<Rightarrow> []
     | Some nm \<Rightarrow>
         if nm = [] then []
         else
           let weights = values_of (fontWeight (typography tokens))
           in [\<lparr> linkTag = webFontLinkTag nm (jsSort weights) \<rparr>])"

section \<open>makeRuntimeTokens\<close>

datatype lightness = Light | Dark

definition referenceColorMap :: "(string \<times> string) list" where
  "referenceColorMap =
    [(''brandAccentActive'', ''brandAccent''),
     (''brandAccentHover'', ''brandAccent''),
     (''formAccentActive'', ''formAccent''),
     (''formAccentHover'', ''formAccent'')]"

text \<open>
  The callback of \<^verbatim>\<open>mapValues\<close>, in three parts: the manual override for the theme
  named jobsDb, the colour whose lightness is taken, and the check that raises followed
  by the call of \<^verbatim>\<open>isLight\<close>. \<^verbatim>\<open>name in referenceColorMap\<close> holds of the map's four
  keys and of the names it inherits; for an inherited name the colour looked up is the
  one stored under the string of the inherited member.
\<close>

definition forcedDark :: "treatTheme \<Rightarrow> string \<Rightarrow> bool" where
  "forcedDark tokens nm = (name tokens = ''jobsDb'' \<and> startsWith ''brandAccent'' nm)"

definition referenceColor :: "treatTheme \<Rightarrow> jsValue \<Rightarrow> string \<Rightarrow> jsValue" where
  "referenceColor tokens bg nm =
    (case map_of referenceColorMap nm of
       Some base \<Rightarrow> getProp (background (color tokens)) base
     | None \<Rightarrow>
         if nm \<in> set objectPrototypeKeys
         then getProp (background (color tokens)) (inheritedMemberString nm)
         else bg)"

definition lightnessError :: "treatTheme \<Rightarrow> jsValue \<Rightarrow> jsError" where
  \<open>lightnessError tokens bg =
    Error (''Error resolving background lightness for background "'' @ templateString bg
           @ ''" in "'' @ name tokens @ ''" theme.'')\<close>

definition backgroundLightnessOf ::
  "colorLib \<Rightarrow> treatTheme \<Rightarrow> jsValue \<Rightarrow> string \<Rightarrow> jsError + lightness" where
  "backgroundLightnessOf lib tokens bg nm =
    (if forcedDark tokens nm then Inr Dark
     else
       (let rc = referenceColor tokens bg nm in
        if \<not> truthy rc then Inl (lightnessError tokens bg)
        else
          (case isLightThrows lib (strOf rc) of
             Some e \<Rightarrow> Inl e
           | None \<Rightarrow> Inr (if isLight lib (strOf rc) then Light else Dark))))"

text \<open>
  \<^verbatim>\<open>mapValues\<close> calls the function on each value with its key, in key order; the first
  call that throws ends the walk.
\<close>

fun mapValues ::
  "('v \<Rightarrow> string \<Rightarrow> jsError + 'w) \<Rightarrow> (string \<times> 'v) list \<Rightarrow> jsError + (string \<times> 'w) list" where
  "mapValues f [] = Inr []"
| "mapValues f ((k, v) # rest) =
    (case f v k of
       Inl e \<Rightarrow> Inl e
     | Inr w \<Rightarrow> (case mapValues f rest of Inl e \<Rightarrow> Inl e | Inr ws \<Rightarrow> Inr ((k, w) # ws)))"

record runtimeTokens =
  rt_name :: string
  rt_displayName :: string
  rt_background :: jsValue
  webFonts :: "webFontLink list"
  rt_color :: "colorObject colorTokens"
  backgroundLightness :: "(string \<times> lightness) list"

definition makeRuntimeTokens :: "colorLib \<Rightarrow> treatTheme \<Rightarrow> jsError + runtimeTokens" where
  "makeRuntimeTokens lib tokens =
    (case mapValues (backgroundLightnessOf lib tokens) (background (color tokens)) of
       Inl e \<Rightarrow> Inl e
     | Inr m \<Rightarrow>
         Inr \<lparr> rt_name = name tokens,
               rt_displayName = displayName tokens,
               rt_background = getProp (background (color tokens)) ''body'',
               webFonts = makeWebFonts tokens,
               rt_color = color tokens,
               backgroundLightness = m \<rparr>)"

definition makeBraidTheme :: "colorLib \<Rightarrow> treatTokens \<Rightarrow> jsError + runtimeTokens" where
  "makeBraidTheme lib treatTokens = makeRuntimeTokens lib (decorateTokens lib treatTokens)"

section \<open>Sample inputs\<close>

text \<open>
  A colour library on a few greys, in which a grey counts as light from \<^verbatim>\<open>#808080\<close> up
  and darkening or lightening moves a grey by the given share of the full range. It
  reads the strings that start with a hash sign and throws on every other one.
\<close>

definition greyLib :: colorLib where
  "greyLib =
    \<lparr> isLight = (\<lambda>c. c \<in> set [''#ffffff'', ''#f2f2f2'', ''#e6e6e6'', ''#808080'']),
      isLightThrows = (\<lambda>c.
        if take 1 c = ''#'' then None else Some (Error ''Could not parse the color string'')),
      darken = (\<lambda>a c.
        if c = ''#ffffff'' then (if a = 0.1 then ''#e6e6e6'' else ''#f2f2f2'')
        else if c = ''#808080'' then (if a = 0.1 then ''#676767'' else ''#737373'')
        else c),
      lighten = (\<lambda>a c. if c = ''#000000'' then ''#0d0d0d'' else c),
      getLightVariant = (\<lambda>c. c) \<rparr>"



text \<open>
  A token tree of greys: the form accent and the critical colour are the lightest grey
  that still counts as light, so their darkened variants count as dark.
\<close>

definition greyBackground :: backgroundTokens where
  "greyBackground =
    \<lparr> bg_body = ''#ffffff'', bg_brand = ''#000000'', bg_input = ''#ffffff'',
      bg_inputDisabled = ''#e6e6e6'', bg_brandAccent = ''#000000'', bg_formAccent = ''#808080'',
      bg_formAccentDisabled = ''#e6e6e6'', bg_selection = ''#f2f2f2'', bg_info = ''#000000'',
      bg_promote = ''#000000'', bg_card = ''#ffffff'', bg_critical = ''#808080'',
      bg_caution = ''#e6e6e6'', bg_positive = ''#000000'', bg_neutral = ''#000000'' \<rparr>"

definition greyTokens :: treatTokens where
  "greyTokens =
    \<lparr> name = ''apac'', displayName = ''APAC'',
      typography = \<lparr> fontFamily = ''Roboto'', webFont = None,
                     fontWeight = [(''regular'', 400), (''medium'', 500), (''strong'', 700)] \<rparr>,
      color = \<lparr> foreground = [], background = greyBackground \<rparr> \<rparr>"







chapter \<open>The type doc extractor\<close>

section \<open>The compiler's model of the program\<close>

text \<open>
  The extractor reads the program through the TypeScript compiler API. A type is a
  handle into the checker's tables (so a type may contain itself, as a recursive
  interface does), a declaration node is a handle too, and the methods the extractor
  calls on types, symbols and signatures are the fields below. The checker's methods are
  taken as total functions; \<^verbatim>\<open>type.aliasSymbol\<close> is kept as the alias's name, the only
  thing the extractor reads of it.
\<close>

type_synonym tsType = nat
type_synonym tsNode = nat

record tsSymbol =
  getName :: string
  escapedName :: string
  getFlags :: "32 word"
  valueDeclaration :: "tsNode option"
  declarations :: "tsNode list"
  getJsDocTags :: "(string \<times> string) list"
  getDocumentationComment :: "string list"

record tsSignature =
  getParameters :: "tsSymbol list"
  getReturnType :: tsType

record sourceFile =
  isDeclarationFile :: bool
  fileName :: string

record checker =
  getTypeOfSymbolAtLocation :: "tsSymbol \<Rightarrow> tsNode option \<Rightarrow> tsType"
  getTypeAtLocation :: "tsNode option \<Rightarrow> tsType"
  typeToString :: "tsType \<Rightarrow> string"
  aliasSymbol :: "tsType \<Rightarrow> string option"
  aliasTypeArguments :: "tsType \<Rightarrow> tsType list option"
  isUnion :: "tsType \<Rightarrow> bool"
  types :: "tsType \<Rightarrow> tsType list"
  isClassOrInterface :: "tsType \<Rightarrow> bool"
  getProperties :: "tsType \<Rightarrow> tsSymbol list"
  getCallSignatures :: "tsType \<Rightarrow> tsSignature list"
  getNonNullableType :: "tsType \<Rightarrow> tsType"
  getSymbolAtLocation :: "sourceFile \<Rightarrow> tsSymbol option"
  getExportsOfModule :: "tsSymbol \<Rightarrow> tsSymbol list"

section \<open>The documentation tree\<close>

text \<open>
  \<^verbatim>\<open>NormalisedPropType\<close> is a string, a union node, an alias node or a
  \<^verbatim>\<open>NormalisedInterface\<close>, whose \<^verbatim>\<open>props\<close> object is kept as the list of its entries in
  key order. An export's entry is a \<^verbatim>\<open>ComponentDoc\<close>, a \<^verbatim>\<open>HookDoc\<close>, or, as
  \<^verbatim>\<open>getComponentDocs\<close> can also return, an interface object on its own with no
  \<^verbatim>\<open>exportType\<close>. Beside the four forms of the declared type, \<^verbatim>\<open>normaliseType\<close> can
  return a member that the passthrough table inherits from \<^verbatim>\<open>Object.prototype\<close>, kept
  here under the name it was looked up by.
\<close>

datatype normalisedPropType =
    TypeString string
  | UnionType "normalisedPropType list"
  | AliasType string "normalisedPropType list"
  | InterfaceType "(string \<times> propDoc) list"
  | InheritedMember string
and propDoc =
    PropDoc (propName: string) (required: bool) (propType: normalisedPropType)
      (deprecated: bool) (tags: "(string \<times> string) list") (description: string)

datatype exportValue =
    ComponentDoc "(string \<times> propDoc) list"
  | HookDoc "normalisedPropType list" normalisedPropType
  | InterfaceObject "(string \<times> propDoc) list"

datatype consoleLine =
    ConsoleLog "string list"
  | ConsoleWarn string
  | ConsoleError jsError

section \<open>Constants\<close>

definition MAX_DEPTH :: nat where
  "MAX_DEPTH = 10"

definition aliasWhitelist :: "string list" where
  "aliasWhitelist = [''ResponsiveProp'']"

definition propBlacklist :: "string list" where
  "propBlacklist = [''key'']"

definition stringAliases :: "(string \<times> string) list" where
  "stringAliases =
    [(''boolean'', ''boolean''),
     (''CSSProperties'', ''CSSProperties''),
     (''string | number | boolean | ClassDictionary | ClassArray'',
      ''string | number | boolean | ClassDictionary | ClassArray'')]"

definition SymbolFlags_Optional :: "32 word" where
  "SymbolFlags_Optional = 16777216"

definition reactNodeTypes :: "string list" where
  "reactNodeTypes =
    [''string'', ''number'', ''false'', ''true'', ''{}'',
     ''ReactElement<any, string | JSXElementConstructor<any>>'']"

definition reactNodeNoStringsTypes :: "string list" where
  "reactNodeNoStringsTypes =
    [''false'', ''true'', ''ReactElement<any, string | JSXElementConstructor<any>>'',
     ''ReactNodeArray'']"

definition maxDepthWarning :: consoleLine where
  "maxDepthWarning =
    ConsoleWarn ''Max depth reached normalising type. Return builtin string representation''"

section \<open>Helpers of the language\<close>

text \<open>
  \<^verbatim>\<open>/^deprecated$/i\<close> matches the name whatever the case of its letters;
  \<^verbatim>\<open>Object.assign({}, ...objects)\<close> writes the entries in order, a later entry with the
  same key replacing the value of the earlier one in place. The keys are names of
  properties and exports; the list gives the order of the object's keys for names that
  are not array indices, which an object lists first, and not \<^verbatim>\<open>__proto__\<close>, which
  \<^verbatim>\<open>Object.assign\<close> does not store as a key.
\<close>

definition asciiLower :: "char \<Rightarrow> char" where
  "asciiLower c =
    (if CHR ''A'' \<le> c \<and> c \<le> CHR ''Z'' then char_of (of_char c + (32::nat)) else c)"

definition isDeprecatedTag :: "string \<Rightarrow> bool" where
  "isDeprecatedTag nm = (map asciiLower nm = ''deprecated'')"

definition objectAssign :: "(string \<times> 'v) list \<Rightarrow> (string \<times> 'v) list" where
  "objectAssign entries = foldl (\<lambda>acc (k, v). AList.update k v acc) [] entries"

section \<open>normaliseType and normalizeInterface\<close>

text \<open>
  Both functions return their value together with the lines they write to the console.
  \<^verbatim>\<open>stringAliases[typeString]\<close> finds the table's own three keys and, the table being
  an object literal, the members it inherits from \<^verbatim>\<open>Object.prototype\<close>; each of those is
  a function or an object, so the test holds of it and it is what the call returns. The
  recursion follows the handles of the checker, so nothing but the depth argument
  bounds it.
\<close>

function normaliseType ::
    "checker \<Rightarrow> tsType \<Rightarrow> tsSymbol \<Rightarrow> nat \<Rightarrow> normalisedPropType \<times> consoleLine list"
  and normalizeInterface ::
    "checker \<Rightarrow> tsType \<Rightarrow> tsSymbol \<Rightarrow> nat \<Rightarrow> bool \<Rightarrow>
       (string \<times> propDoc) list \<times> consoleLine list"
where
  "normaliseType chk ty propsObj depth =
    (let typeString = typeToString chk ty in
     case map_of stringAliases typeString of
       Some s \<Rightarrow> (TypeString s, [])
     | None \<Rightarrow>
         if typeString \<in> set objectPrototypeKeys then (InheritedMember typeString, [])
         else if depth > MAX_DEPTH then (TypeString typeString, [maxDepthWarning])
         else
           (case (case aliasSymbol chk ty of
                    Some alias \<Rightarrow> if alias \<in> set aliasWhitelist then Some alias else None
                  | None \<Rightarrow> None) of
              Some alias \<Rightarrow>
                (let rs = map (\<lambda>aliasArg. normaliseType chk aliasArg propsObj (depth + 1))
                            (case aliasTypeArguments chk ty of
                               Some args \<Rightarrow> args
                             | None \<Rightarrow> [])
                 in (AliasType alias (map fst rs), concat (map snd rs)))
            | None \<Rightarrow>
                if isUnion chk ty then
                  (let typeStrings = map (typeToString chk) (types chk ty) in
                   if take 6 typeStrings = reactNodeTypes then (TypeString ''ReactNode'', [])
                   else if typeStrings = reactNodeNoStringsTypes
                   then (TypeString ''ReactNodeNoStrings'', [])
                   else
                     (let rs = map (\<lambda>unionItem.
                                     normaliseType chk unionItem propsObj (depth + 1))
                                 (types chk ty)
                      in (UnionType (map fst rs), concat (map snd rs))))
                else if isClassOrInterface chk ty then
                  (let r = normalizeInterface chk ty propsObj (depth + 1) False
                   in (InterfaceType (fst r), snd r))
                else (TypeString typeString, [])))"
| "normalizeInterface chk propsType propsObj depth extractComments =
    (let rs =
       map (\<lambda>prop.
             let propName = getName prop;
                 tags = filter (\<lambda>(nm, text). nm \<noteq> ''see'') (getJsDocTags prop);
                 deprecated = list_ex (\<lambda>(nm, text). isDeprecatedTag nm) tags;
                 description =
                   (if extractComments then joinWith [CHR 0x0A] (getDocumentationComment prop)
                    else []);
                 propType =
                   getNonNullableType chk
                     (getTypeOfSymbolAtLocation chk prop (valueDeclaration propsObj));
                 isOptional = (getFlags prop AND SymbolFlags_Optional \<noteq> 0);
                 typeAlias = typeToString chk (getTypeAtLocation chk (valueDeclaration prop));
                 r = (if typeAlias \<in> set aliasWhitelist then (TypeString typeAlias, [])
                      else normaliseType chk propType propsObj (depth + 1))
             in ((propName,
                  PropDoc propName (\<not> isOptional) (fst r) deprecated tags description),
                 snd r))
           (filter (\<lambda>prop. getName prop \<notin> set propBlacklist) (getProperties chk propsType))
     in (objectAssign (map fst rs), concat (map snd rs)))"
  by pat_completeness auto
termination
  by (relation "measure (\<lambda>x. case x of
          Inl (chk, ty, propsObj, depth) \<Rightarrow> 2 * (13 - depth)
        | Inr (chk, ty, propsObj, depth, extractComments) \<Rightarrow> 2 * (12 - depth) + 1)")
     (auto simp: MAX_DEPTH_def split: option.splits if_splits)

declare normaliseType.simps [simp del] normalizeInterface.simps [simp del]

text \<open>
  A call of either function, as the pair of its arguments, and the depth it is made at.
\<close>

type_synonym normaliseCall =
  "(checker \<times> tsType \<times> tsSymbol \<times> nat) + (checker \<times> tsType \<times> tsSymbol \<times> nat \<times> bool)"

definition callDepth :: "normaliseCall \<Rightarrow> nat" where
  "callDepth call =
    (case call of
       Inl (chk, ty, propsObj, depth) \<Rightarrow> depth
     | Inr (chk, ty, propsObj, depth, extractComments) \<Rightarrow> depth)"

section \<open>Components and hooks\<close>

text \<open>\<^verbatim>\<open>exp.valueDeclaration || exp.declarations[0]\<close>.\<close>

definition declarationOf :: "tsSymbol \<Rightarrow> tsNode option" where
  "declarationOf expSym =
    (case valueDeclaration expSym of
       Some d \<Rightarrow> Some d
     | None \<Rightarrow> (case declarations expSym of [] \<Rightarrow> None | d # rest \<Rightarrow> Some d))"

text \<open>The loop of \<^verbatim>\<open>getComponentPropsType\<close> over the call signatures.\<close>

fun propsParamOf :: "tsSignature list \<Rightarrow> tsSymbol option" where
  "propsParamOf [] = None"
| "propsParamOf (sig # rest) =
    (case getParameters sig of
       [] \<Rightarrow> propsParamOf rest
     | propsParam # others \<Rightarrow>
         if getName propsParam = ''props'' \<or> length (getParameters sig) = 1
         then Some propsParam
         else propsParamOf rest)"

definition getComponentPropsType :: "checker \<Rightarrow> tsSymbol \<Rightarrow> tsSymbol option" where
  "getComponentPropsType chk expSym =
    (let type = getTypeOfSymbolAtLocation chk expSym (declarationOf expSym);
         callSignatures = getCallSignatures chk type
     in propsParamOf callSignatures)"

definition getComponentDocs :: "checker \<Rightarrow> tsSymbol \<Rightarrow> exportValue \<times> consoleLine list" where
  "getComponentDocs chk expSym =
    (case getComponentPropsType chk expSym of
       None \<Rightarrow> (InterfaceObject [], [])
     | Some propsObj \<Rightarrow>
         (case valueDeclaration propsObj of
            None \<Rightarrow> (InterfaceObject [], [])
          | Some decl \<Rightarrow>
              let propsType = getTypeOfSymbolAtLocation chk propsObj (Some decl);
                  r = normalizeInterface chk propsType propsObj 0 True
              in (ComponentDoc (fst r), snd r)))"

text \<open>
  \<^verbatim>\<open>getHookDocs\<close> takes the first call signature; with none, reading
  \<^verbatim>\<open>callSignature.getParameters\<close> throws a TypeError before anything is normalised.
\<close>

definition getHookDocs ::
  "checker \<Rightarrow> tsSymbol \<Rightarrow> (jsError + exportValue) \<times> consoleLine list" where
  "getHookDocs chk expSym =
    (let type = getTypeOfSymbolAtLocation chk expSym (declarationOf expSym) in
     case getCallSignatures chk type of
       [] \<Rightarrow> (Inl (TypeError ''Cannot read property 'getParameters' of undefined''), [])
     | callSignature # rest \<Rightarrow>
         let ps = map (\<lambda>param.
                        normaliseType chk
                          (getTypeOfSymbolAtLocation chk param (valueDeclaration expSym))
                          expSym 0)
                    (getParameters callSignature);
             r = normaliseType chk (getReturnType callSignature) expSym 0
         in (Inr (HookDoc (map fst ps) (fst r)), concat (map snd ps) @ snd r))"

section \<open>The extraction pass\<close>

text \<open>
  The body of the \<^verbatim>\<open>try\<close> block, its \<^verbatim>\<open>catch\<close>, and the \<^verbatim>\<open>Object.assign\<close> over the
  callback's results, in which a failed export's \<^verbatim>\<open>undefined\<close> adds nothing.
\<close>

definition normaliseExport ::
  "checker \<Rightarrow> tsSymbol \<Rightarrow> (jsError + exportValue) \<times> consoleLine list" where
  "normaliseExport chk moduleExport =
    (if startsWith ''use'' (getName moduleExport) then getHookDocs chk moduleExport
     else (let r = getComponentDocs chk moduleExport in (Inr (fst r), snd r)))"

definition failureLog :: "tsSymbol \<Rightarrow> jsError \<Rightarrow> consoleLine list" where
  "failureLog moduleExport e =
    [ConsoleLog [''Failed to extract type from'', escapedName moduleExport], ConsoleError e]"

definition exportEntry ::
  "checker \<Rightarrow> tsSymbol \<Rightarrow> (string \<times> exportValue) option \<times> consoleLine list" where
  "exportEntry chk moduleExport =
    (let r = normaliseExport chk moduleExport in
     case fst r of
       Inr exportType \<Rightarrow> (Some (escapedName moduleExport, exportType), snd r)
     | Inl e \<Rightarrow> (None, snd r @ failureLog moduleExport e))"





section \<open>The props parameter as the specification words it\<close>

text \<open>
  The first call signature with at least one parameter decides: its first parameter
  when that is named props or is the only one, and no parameter otherwise.
\<close>

fun firstSignatureProps :: "tsSignature list \<Rightarrow> tsSymbol option" where
  "firstSignatureProps [] = None"
| "firstSignatureProps (sig # rest) =
    (case getParameters sig of
       [] \<Rightarrow> firstSignatureProps rest
     | propsParam # others \<Rightarrow>
         if getName propsParam = ''props'' \<or> length (getParameters sig) = 1
         then Some propsParam
         else None)"

text \<open>
  A call signature the loop of the source stops at: it has a parameter, and its first
  parameter is named props or is its only one.
\<close>

definition stopsAt :: "tsSignature \<Rightarrow> bool" where
  "stopsAt sig =
    (case getParameters sig of
       [] \<Rightarrow> False
     | propsParam # others \<Rightarrow> getName propsParam = ''props'' \<or> others = [])"

section \<open>A sample module\<close>

text \<open>
  A components module with three exports: the component List, whose props hold a
  blacklisted key, a recursive interface Node and a boolean; the hook useList, whose
  type has no call signature; and the component Text, whose one prop is a whitelisted
  alias. Beside them, the function onSelect has two call signatures, the first with two
  parameters, and every other symbol, such as the constant themeNames, has the type any
  with no call signature.
\<close>

definition symbolNamed :: "string \<Rightarrow> tsNode option \<Rightarrow> tsSymbol" where
  "symbolNamed nm decl =
    \<lparr> getName = nm, escapedName = nm, getFlags = 0, valueDeclaration = decl,
      declarations = (case decl of None \<Rightarrow> [] | Some d \<Rightarrow> [d]),
      getJsDocTags = [], getDocumentationComment = [] \<rparr>"

definition nextProp :: tsSymbol where
  "nextProp =
    \<lparr> getName = ''next'', escapedName = ''next'', getFlags = SymbolFlags_Optional,
      valueDeclaration = Some 20, declarations = [20],
      getJsDocTags = [(''see'', ''Node''), (''Deprecated'', ''use links'')],
      getDocumentationComment = [''The node'', ''after this one''] \<rparr>"

definition sampleChecker :: checker where
  "sampleChecker =
    \<lparr> getTypeOfSymbolAtLocation = (\<lambda>sym loc.
        if getName sym = ''List'' then 1
        else if getName sym = ''props'' then (if loc = Some 14 then 8 else 2)
        else if getName sym = ''next'' then 3
        else if getName sym = ''open'' then 4
        else if getName sym = ''useList'' then 5
        else if getName sym = ''Text'' then 6
        else if getName sym = ''size'' then 7
        else if getName sym = ''onSelect'' then 9
        else 0),
      getTypeAtLocation = (\<lambda>loc. if loc = Some 22 then 7 else 0),
      typeToString = (\<lambda>ty.
        if ty = 1 then ''(props: ListProps) => Element''
        else if ty = 2 then ''ListProps''
        else if ty = 3 then ''Node''
        else if ty = 4 then ''boolean''
        else if ty = 6 then ''(props: TextProps) => Element''
        else if ty = 7 then ''ResponsiveProp''
        else if ty = 8 then ''TextProps''
        else if ty = 9 then ''Select''
        else ''any''),
      aliasSymbol = (\<lambda>ty. if ty = 7 then Some ''ResponsiveProp'' else None),
      aliasTypeArguments = (\<lambda>ty. None),
      isUnion = (\<lambda>ty. ty = 4),
      types = (\<lambda>ty. []),
      isClassOrInterface = (\<lambda>ty. ty = 2 \<or> ty = 3 \<or> ty = 8),
      getProperties = (\<lambda>ty.
        if ty = 2 then [symbolNamed ''key'' (Some 21), nextProp, symbolNamed ''open'' (Some 23)]
        else if ty = 3 then [nextProp]
        else if ty = 8 then [symbolNamed ''size'' (Some 22)]
        else []),
      getCallSignatures = (\<lambda>ty.
        if ty = 1
        then [\<lparr> getParameters = [symbolNamed ''props'' (Some 10)], getReturnType = 0 \<rparr>]
        else if ty = 6
        then [\<lparr> getParameters = [symbolNamed ''props'' (Some 14)], getReturnType = 0 \<rparr>]
        else if ty = 9
        then [\<lparr> getParameters = [symbolNamed ''item'' (Some 30), symbolNamed ''index'' (Some 31)],
                getReturnType = 0 \<rparr>,
              \<lparr> getParameters = [symbolNamed ''event'' (Some 32)], getReturnType = 0 \<rparr>]
        else []),
      getNonNullableType = (\<lambda>ty. ty),
      getSymbolAtLocation = (\<lambda>sf. Some (symbolNamed ''index'' (Some 1))),
      getExportsOfModule = (\<lambda>sym.
        [symbolNamed ''List'' (Some 11), symbolNamed ''useList'' (Some 12),
         symbolNamed ''Text'' (Some 13)]) \<rparr>"



text \<open>
  The sample module with its recursive interface named \<^verbatim>\<open>constructor\<close> instead of Node.
\<close>

definition constructorChecker :: checker where
  "constructorChecker =
    sampleChecker \<lparr> typeToString :=
      (\<lambda>ty. if ty = 3 then ''constructor'' else typeToString sampleChecker ty) \<rparr>"

chapter \<open>The Rating component (lib/components/Rating/Rating.tsx)\<close>

text \<open>
  A JavaScript number is NaN, an infinity or a finite value; the finite doubles are
  rationals, and the comparisons with 0 and 5 are exact. \<^verbatim>\<open>!rating\<close> holds of NaN and
  of zero. Every comparison with NaN is false.
\<close>

datatype jsNumber = NaN | NegInfinity | Finite rat | PosInfinity

definition numberFalsy :: "jsNumber \<Rightarrow> bool" where
  "numberFalsy x = (case x of NaN \<Rightarrow> True | Finite q \<Rightarrow> q = 0 | _ \<Rightarrow> False)"

fun jsLessEq :: "jsNumber \<Rightarrow> jsNumber \<Rightarrow> bool" where
  "jsLessEq NaN y = False"
| "jsLessEq x NaN = False"
| "jsLessEq NegInfinity y = True"
| "jsLessEq x PosInfinity = True"
| "jsLessEq (Finite a) (Finite b) = (a \<le> b)"
| "jsLessEq x y = False"

definition jsGreaterEq :: "jsNumber \<Rightarrow> jsNumber \<Rightarrow> bool" where
  "jsGreaterEq x y = jsLessEq y x"

datatype assertionError = AssertionError string

text \<open>The \<^verbatim>\<open>assert\<close> call at the head of \<^verbatim>\<open>Rating\<close>.\<close>

definition ratingAssert :: "jsNumber \<Rightarrow> assertionError + unit" where
  "ratingAssert rating =
    (if numberFalsy rating \<or> (jsGreaterEq rating (Finite 0) \<and> jsLessEq rating (Finite 5))
     then Inr ()
     else Inl (AssertionError ''Rating must be between 0 and 5''))"

text \<open>The rating lies in the interval from 0 to 5; NaN and the infinities do not.\<close>

definition inRatingInterval :: "jsNumber \<Rightarrow> bool" where
  "inRatingInterval x = (case x of Finite q \<Rightarrow> 0 \<le> q \<and> q \<le> 5 | _ \<Rightarrow> False)"

chapter \<open>Properties of the theme token compiler\<close>

text \<open>
  C6. \<^verbatim>\<open>getActiveColor\<close> and \<^verbatim>\<open>getHoverColor\<close> are functions of the colour string
  alone (over fixed colour functions of the library): the active colour of a light
  colour is the colour darkened by 0.1 and its hover colour the colour darkened by
  0.05; the active colour of a dark colour is the colour darkened by 0.05 and its hover
  colour the colour lightened by 0.05.
\<close>

theorem getActiveColor_getHoverColor_by_lightness:
  "(isLight lib x \<longrightarrow>
      getActiveColor lib x = darken lib 0.1 x \<and> getHoverColor lib x = darken lib 0.05 x) \<and>
   (\<not> isLight lib x \<longrightarrow>
      getActiveColor lib x = darken lib 0.05 x \<and> getHoverColor lib x = lighten lib 0.05 x)"
  by (simp add: getActiveColor_def getHoverColor_def)

theorem getActiveColor_getHoverColor_witness:
  "isLight greyLib ''#ffffff'' \<and>
   getActiveColor greyLib ''#ffffff'' = ''#e6e6e6'' \<and>
   getHoverColor greyLib ''#ffffff'' = ''#f2f2f2'' \<and>
   \<not> isLight greyLib ''#000000'' \<and>
   getActiveColor greyLib ''#000000'' = ''#000000'' \<and>
   getHoverColor greyLib ''#000000'' = ''#0d0d0d''"
  using getActiveColor_getHoverColor_by_lightness [of greyLib "''#ffffff''"]
    getActiveColor_getHoverColor_by_lightness [of greyLib "''#000000''"]
  by (simp add: greyLib_def)

section \<open>Decimal strings and the order of sort()\<close>
















lemma jsSort_by_strings_example: "jsSort [200, 1000] = [1000, 200]"
  by code_simp





section \<open>Background lightness\<close>

lemma mapValues_isl:
  "isl (mapValues f obj) \<longleftrightarrow> (\<exists>(k, v)\<in>set obj. isl (f v k))"
  by (induction f obj rule: mapValues.induct) (auto split: sum.splits)

lemma mapValues_Inr:
  "mapValues f obj = Inr m \<Longrightarrow> m = map (\<lambda>(k, v). (k, projr (f v k))) obj"
  by (induction f obj arbitrary: m rule: mapValues.induct) (auto split: sum.splits)




lemma backgroundLightnessOf_projr:
  "\<not> isl (backgroundLightnessOf lib tokens bg nm) \<Longrightarrow>
     projr (backgroundLightnessOf lib tokens bg nm) =
       (if forcedDark tokens nm then Dark
        else if isLight lib (strOf (referenceColor tokens bg nm)) then Light else Dark)"
  by (simp add: backgroundLightnessOf_def Let_def split: option.splits if_splits)



lemma backgroundLightness_of_result:
  assumes ok: "makeRuntimeTokens lib tokens = Inr rt"
  shows "backgroundLightness rt =
        map (\<lambda>(nm, bg).
              (nm, if forcedDark tokens nm then Dark
                   else if isLight lib (strOf (referenceColor tokens bg nm)) then Light
                   else Dark))
          (background (color tokens))"
proof -
  let ?f = "backgroundLightnessOf lib tokens"
  let ?obj = "background (color tokens)"
  from ok have mv: "mapValues ?f ?obj = Inr (backgroundLightness rt)"
    by (auto simp: makeRuntimeTokens_def split: sum.splits)
  then have "\<not> isl (mapValues ?f ?obj)" by simp
  then have each: "\<And>k v. (k, v) \<in> set ?obj \<Longrightarrow> \<not> isl (?f v k)"
    by (auto simp: mapValues_isl)
  have "backgroundLightness rt = map (\<lambda>(k, v). (k, projr (?f v k))) ?obj"
    using mv by (rule mapValues_Inr)
  also have "\<dots> = map (\<lambda>(nm, bg).
              (nm, if forcedDark tokens nm then Dark
                   else if isLight lib (strOf (referenceColor tokens bg nm)) then Light
                   else Dark)) ?obj"
    by (rule map_cong [OF refl]) (auto simp: backgroundLightnessOf_projr [OF each])
  finally show ?thesis .
qed





text \<open>
  C1. On the tree of greys the form accent and the critical colour are the same light
  grey. The hover and active variants of the form accent take the classification of
  their base (light, although their own colours are dark in this library); the hover
  and active variants of the critical colour are classified by their own colours and
  come out dark beside a light base: \<^verbatim>\<open>referenceColorMap\<close> has no entry for them.
\<close>

theorem critical_variants_classified_on_their_own:
  "map_sum id backgroundLightness (makeRuntimeTokens greyLib (decorateTokens greyLib greyTokens)) =
     Inr [(''body'', Light), (''brand'', Dark), (''input'', Light), (''inputDisabled'', Light),
          (''brandAccent'', Dark), (''formAccent'', Light), (''formAccentDisabled'', Light),
          (''selection'', Light), (''info'', Dark), (''promote'', Dark), (''card'', Light),
          (''critical'', Light), (''caution'', Light), (''positive'', Dark), (''neutral'', Dark),
          (''formAccentActive'', Light), (''formAccentHover'', Light),
          (''brandAccentActive'', Dark), (''brandAccentHover'', Dark),
          (''criticalActive'', Dark), (''criticalHover'', Dark),
          (''infoLight'', Dark), (''promoteLight'', Dark), (''criticalLight'', Light),
          (''positiveLight'', Dark), (''cautionLight'', Light), (''neutralLight'', Dark)]"
  by code_simp

lemma referenceColor_decorated:
  "referenceColor (decorateTokens lib tk) bg ''formAccent'' = bg"
  "referenceColor (decorateTokens lib tk) bg ''brandAccent'' = bg"
  "referenceColor (decorateTokens lib tk) bg ''formAccentHover'' = Str (bg_formAccent (background (color tk)))"
  "referenceColor (decorateTokens lib tk) bg ''formAccentActive'' = Str (bg_formAccent (background (color tk)))"
  "referenceColor (decorateTokens lib tk) bg ''brandAccentHover'' = Str (bg_brandAccent (background (color tk)))"
  "referenceColor (decorateTokens lib tk) bg ''brandAccentActive'' = Str (bg_brandAccent (background (color tk)))"
  by (simp_all add: referenceColor_def referenceColorMap_def objectPrototypeKeys_def getProp_def
      decorateTokens_def decorateBackground_def)

lemma forcedDark_brandAccent:
  "forcedDark tokens ''brandAccentHover'' = forcedDark tokens ''brandAccent''"
  "forcedDark tokens ''brandAccentActive'' = forcedDark tokens ''brandAccent''"
  "forcedDark tokens ''formAccentHover'' = False"
  "forcedDark tokens ''formAccentActive'' = False"
  "forcedDark tokens ''formAccent'' = False"
  by (simp_all add: forcedDark_def startsWith_def)

text \<open>
  X1. Whenever \<^verbatim>\<open>makeBraidTheme\<close> completes, the hover and active variants of the form
  accent and of the brand accent have the classification of their base colour, in
  every theme and for every colour library: these four are the keys of
  \<^verbatim>\<open>referenceColorMap\<close>, and the jobsDb override covers the brand accent and its
  variants alike.
\<close>

theorem mapped_variants_inherit:
  assumes "makeBraidTheme lib tk = Inr rt"
  shows "map_of (backgroundLightness rt) ''formAccentHover'' =
           map_of (backgroundLightness rt) ''formAccent'' \<and>
         map_of (backgroundLightness rt) ''formAccentActive'' =
           map_of (backgroundLightness rt) ''formAccent'' \<and>
         map_of (backgroundLightness rt) ''brandAccentHover'' =
           map_of (backgroundLightness rt) ''brandAccent'' \<and>
         map_of (backgroundLightness rt) ''brandAccentActive'' =
           map_of (backgroundLightness rt) ''brandAccent'' \<and>
         map_of (backgroundLightness rt) ''formAccent'' \<noteq> None \<and>
         map_of (backgroundLightness rt) ''brandAccent'' \<noteq> None"
proof -
  let ?t = "decorateTokens lib tk"
  let ?g = "\<lambda>nm bg. if forcedDark ?t nm then Dark
                   else if isLight lib (strOf (referenceColor ?t bg nm)) then Light else Dark"
  from assms have "makeRuntimeTokens lib ?t = Inr rt" by (simp add: makeBraidTheme_def)
  then have "backgroundLightness rt = map (\<lambda>(nm, bg). (nm, ?g nm bg)) (background (color ?t))"
    by (rule backgroundLightness_of_result)
  then have bl: "backgroundLightness rt =
      map (\<lambda>(nm, bg). (nm, ?g nm bg)) (decorateBackground lib (background (color tk)))"
    by (simp add: decorateTokens_def)
  show ?thesis
    unfolding bl decorateBackground_def
    by (simp add: referenceColor_decorated forcedDark_brandAccent)
qed

theorem mapped_variants_inherit_witness:
  "makeBraidTheme greyLib greyTokens = Inr (projr (makeBraidTheme greyLib greyTokens)) \<and>
   map_of (backgroundLightness (projr (makeBraidTheme greyLib greyTokens))) ''formAccent'' =
     Some Light \<and>
   map_of (backgroundLightness (projr (makeBraidTheme greyLib greyTokens))) ''formAccentHover'' =
     Some Light \<and>
   map_of (backgroundLightness (projr (makeBraidTheme greyLib greyTokens))) ''formAccentActive'' =
     Some Light"
proof -
  have ok: "makeBraidTheme greyLib greyTokens = Inr (projr (makeBraidTheme greyLib greyTokens))"
    by code_simp
  have base: "map_of (backgroundLightness (projr (makeBraidTheme greyLib greyTokens)))
      ''formAccent'' = Some Light"
    by code_simp
  from mapped_variants_inherit [OF ok] base ok show ?thesis
    by simp
qed

chapter \<open>Properties of the type doc extractor\<close>

section \<open>Passthrough aliases and the depth bound\<close>

lemma normaliseType_passthrough:
  "map_of stringAliases (typeToString chk ty) = Some s \<Longrightarrow>
     normaliseType chk ty propsObj depth = (TypeString s, [])"
  by (simp add: normaliseType.simps)

lemma stringAliases_lookup:
  "map_of stringAliases s = (if s \<in> fst ` set stringAliases then Some s else None)"
  by (simp add: stringAliases_def)

text \<open>
  C9. The keys of the passthrough list are the three display strings, and a type whose
  display string is one of them is returned as that string, at every depth and with
  nothing written to the console: the lookup comes before the depth check and before
  any look at the type's alias, members or properties.
\<close>

theorem normaliseType_passthrough_any_depth:
  "fst ` set stringAliases =
     {''boolean'', ''CSSProperties'', ''string | number | boolean | ClassDictionary | ClassArray''} \<and>
   (typeToString chk ty \<in> fst ` set stringAliases \<longrightarrow>
      normaliseType chk ty propsObj depth = (TypeString (typeToString chk ty), []))"
proof (intro conjI impI)
  show "fst ` set stringAliases =
     {''boolean'', ''CSSProperties'', ''string | number | boolean | ClassDictionary | ClassArray''}"
    by (simp add: stringAliases_def)
next
  assume "typeToString chk ty \<in> fst ` set stringAliases"
  then have "map_of stringAliases (typeToString chk ty) = Some (typeToString chk ty)"
    by (simp only: stringAliases_lookup if_True)
  then show "normaliseType chk ty propsObj depth = (TypeString (typeToString chk ty), [])"
    by (rule normaliseType_passthrough)
qed

lemma sample_boolean: "typeToString sampleChecker 4 = ''boolean''"
  by (simp add: sampleChecker_def)

theorem normaliseType_passthrough_witness:
  "typeToString sampleChecker 4 = ''boolean'' \<and>
   normaliseType sampleChecker 4 nextProp 0 = (TypeString ''boolean'', []) \<and>
   normaliseType sampleChecker 4 nextProp 11 = (TypeString ''boolean'', []) \<and>
   normaliseType sampleChecker 4 nextProp 1000 = (TypeString ''boolean'', [])"
  using normaliseType_passthrough_any_depth [of sampleChecker 4 nextProp 0]
    normaliseType_passthrough_any_depth [of sampleChecker 4 nextProp 11]
    normaliseType_passthrough_any_depth [of sampleChecker 4 nextProp 1000]
  by (simp add: sample_boolean)

text \<open>
  The call relation of the two functions, as their definition generates it, relates each
  call that the body of a call makes to that call; a call is in the domain when the
  calls below it are well-founded. The lemmas read the depth off both.
\<close>

lemma normalise_call_depth:
  assumes "normaliseType_normalizeInterface_rel callee caller"
  shows "callDepth callee = callDepth caller + 1"
    and "caller = Inl (chk, ty, propsObj, depth) \<Longrightarrow> depth \<le> MAX_DEPTH"
  using assms
  by (induction rule: normaliseType_normalizeInterface_rel.induct)
     (auto simp: callDepth_def)

lemma normalise_all_dom: "normaliseType_normalizeInterface_dom call"
proof -
  have "All normaliseType_normalizeInterface_dom"
    by (relation "measure (\<lambda>x. case x of
          Inl (chk, ty, propsObj, depth) \<Rightarrow> 2 * (13 - depth)
        | Inr (chk, ty, propsObj, depth, extractComments) \<Rightarrow> 2 * (12 - depth) + 1)")
       (auto simp: MAX_DEPTH_def split: option.splits if_splits)
  then show ?thesis by (rule spec)
qed

lemma normaliseType_beyond_max_depth:
  "map_of stringAliases (typeToString chk ty) = None \<Longrightarrow>
   typeToString chk ty \<notin> set objectPrototypeKeys \<Longrightarrow> depth > MAX_DEPTH \<Longrightarrow>
     normaliseType chk ty propsObj depth = (TypeString (typeToString chk ty), [maxDepthWarning])"
  by (simp add: normaliseType.simps)

lemma normaliseType_inherited:
  "map_of stringAliases (typeToString chk ty) = None \<Longrightarrow>
   typeToString chk ty \<in> set objectPrototypeKeys \<Longrightarrow>
     normaliseType chk ty propsObj depth = (InheritedMember (typeToString chk ty), [])"
  by (simp add: normaliseType.simps)

text \<open>
  Termination. \<^verbatim>\<open>normaliseType\<close> terminates on every type, symbol and depth: every call
  is in the domain of the recursion, each call it or \<^verbatim>\<open>normalizeInterface\<close> makes is one
  deeper than its caller, and a call of \<^verbatim>\<open>normaliseType\<close> deeper than \<^verbatim>\<open>MAX_DEPTH\<close>,
  which is 10, makes no call. Such a call on a type whose display string is neither a
  passthrough alias nor the name of a member of \<^verbatim>\<open>Object.prototype\<close> returns the display
  string and writes the warning.
\<close>

theorem normaliseType_terminates:
  "MAX_DEPTH = 10 \<and>
   normaliseType_normalizeInterface_dom (Inl (chk, ty, propsObj, depth)) \<and>
   (\<forall>callee caller. normaliseType_normalizeInterface_rel callee caller \<longrightarrow>
      callDepth callee = callDepth caller + 1) \<and>
   (depth > MAX_DEPTH \<longrightarrow>
      (\<forall>callee. \<not> normaliseType_normalizeInterface_rel callee (Inl (chk, ty, propsObj, depth)))) \<and>
   (depth > MAX_DEPTH \<and> typeToString chk ty \<notin> fst ` set stringAliases \<and>
    typeToString chk ty \<notin> set objectPrototypeKeys \<longrightarrow>
      normaliseType chk ty propsObj depth =
        (TypeString (typeToString chk ty), [maxDepthWarning]))"
proof (intro conjI allI impI notI)
  show "MAX_DEPTH = 10" by (rule MAX_DEPTH_def)
next
  show "normaliseType_normalizeInterface_dom (Inl (chk, ty, propsObj, depth))"
    by (rule normalise_all_dom)
next
  fix callee caller
  assume "normaliseType_normalizeInterface_rel callee caller"
  then show "callDepth callee = callDepth caller + 1" by (rule normalise_call_depth(1))
next
  fix callee
  assume "MAX_DEPTH < depth"
    and "normaliseType_normalizeInterface_rel callee (Inl (chk, ty, propsObj, depth))"
  then show False using normalise_call_depth(2) [OF _ refl] by fastforce
next
  assume a: "depth > MAX_DEPTH \<and> typeToString chk ty \<notin> fst ` set stringAliases \<and>
    typeToString chk ty \<notin> set objectPrototypeKeys"
  then have "map_of stringAliases (typeToString chk ty) = None"
    by (simp add: map_of_eq_None_iff)
  with a show "normaliseType chk ty propsObj depth =
        (TypeString (typeToString chk ty), [maxDepthWarning])"
    by (simp add: normaliseType_beyond_max_depth)
qed

text \<open>
  On the recursive interface Node of the sample module the interface branch does call
  \<^verbatim>\<open>normalizeInterface\<close> one deeper, and at depth 11 the display string comes back.
\<close>

lemma sample_Node:
  "typeToString sampleChecker 3 = ''Node''"
  "aliasSymbol sampleChecker 3 = None"
  "isUnion sampleChecker 3 = False"
  "isClassOrInterface sampleChecker 3 = True"
  by (simp_all add: sampleChecker_def)

lemma sample_Node_call:
  "normaliseType_normalizeInterface_rel
     (Inr (sampleChecker, 3, nextProp, 0 + 1, False)) (Inl (sampleChecker, 3, nextProp, 0))"
  by (rule normaliseType_normalizeInterface_rel.intros(2) [OF refl])
     (simp_all add: sample_Node stringAliases_def objectPrototypeKeys_def MAX_DEPTH_def)

theorem normaliseType_terminates_witness:
  "normaliseType_normalizeInterface_dom (Inl (sampleChecker, 3, nextProp, 0)) \<and>
   normaliseType_normalizeInterface_rel
     (Inr (sampleChecker, 3, nextProp, 0 + 1, False)) (Inl (sampleChecker, 3, nextProp, 0)) \<and>
   callDepth (Inr (sampleChecker, 3, nextProp, 0 + 1, False)) =
     callDepth (Inl (sampleChecker, 3, nextProp, 0)) + 1 \<and>
   typeToString sampleChecker 3 = ''Node'' \<and>
   normaliseType sampleChecker 3 nextProp 11 = (TypeString ''Node'', [maxDepthWarning])"
proof -
  note t0 = normaliseType_terminates [of sampleChecker 3 nextProp 0]
  note t11 = normaliseType_terminates [of sampleChecker 3 nextProp 11]
  from t0 have dom: "normaliseType_normalizeInterface_dom (Inl (sampleChecker, 3, nextProp, 0))"
    by (rule conjunct1 [OF conjunct2])
  from t0 have "\<forall>callee caller. normaliseType_normalizeInterface_rel callee caller \<longrightarrow>
      callDepth callee = callDepth caller + 1"
    by (rule conjunct1 [OF conjunct2 [OF conjunct2]])
  with sample_Node_call have depth:
    "callDepth (Inr (sampleChecker, 3, nextProp, 0 + 1, False)) =
       callDepth (Inl (sampleChecker, 3, nextProp, 0)) + 1"
    by blast
  have pre: "11 > MAX_DEPTH \<and> typeToString sampleChecker 3 \<notin> fst ` set stringAliases \<and>
      typeToString sampleChecker 3 \<notin> set objectPrototypeKeys"
    by (simp add: sample_Node stringAliases_def objectPrototypeKeys_def MAX_DEPTH_def)
  from t11 have "11 > MAX_DEPTH \<and> typeToString sampleChecker 3 \<notin> fst ` set stringAliases \<and>
      typeToString sampleChecker 3 \<notin> set objectPrototypeKeys \<longrightarrow>
      normaliseType sampleChecker 3 nextProp 11 =
        (TypeString (typeToString sampleChecker 3), [maxDepthWarning])"
    by (rule conjunct2 [OF conjunct2 [OF conjunct2 [OF conjunct2]]])
  with pre have "normaliseType sampleChecker 3 nextProp 11 =
        (TypeString (typeToString sampleChecker 3), [maxDepthWarning])"
    by (rule rev_mp)
  then have res: "normaliseType sampleChecker 3 nextProp 11 = (TypeString ''Node'', [maxDepthWarning])"
    by (simp only: sample_Node)
  from dom sample_Node_call depth sample_Node(1) res show ?thesis
    by (intro conjI)
qed

lemma sample_Node_from_depth_0:
  "normaliseType sampleChecker 3 nextProp 11 = (TypeString ''Node'', [maxDepthWarning])"
  "snd (normaliseType sampleChecker 3 nextProp 0) = [maxDepthWarning]"
  by code_simp+

lemma sample_constructor:
  "typeToString constructorChecker 3 = ''constructor''"
  "isClassOrInterface constructorChecker 3 = True"
  "map_of stringAliases ''constructor'' = None"
  "''constructor'' \<in> set objectPrototypeKeys"
  by (simp_all add: constructorChecker_def sampleChecker_def stringAliases_def
      objectPrototypeKeys_def)

text \<open>
  C3. The specification has a call of \<^verbatim>\<open>normaliseType\<close> deeper than \<^verbatim>\<open>MAX_DEPTH\<close> return
  the display string of a type that is not a passthrough alias, and the declared result
  type \<^verbatim>\<open>NormalisedPropType\<close> has a string, a union, an alias or an interface come back
  at every depth. On an interface whose display string is \<^verbatim>\<open>constructor\<close>, which is not
  a key of the passthrough table, the call returns the member \<^verbatim>\<open>constructor\<close> that the
  table inherits, at depth 11 and at depth 0 alike, and writes no warning: neither the
  display string nor the interface.
\<close>

theorem normaliseType_returns_inherited_member:
  "typeToString constructorChecker 3 = ''constructor'' \<and>
   isClassOrInterface constructorChecker 3 \<and>
   map_of stringAliases ''constructor'' = None \<and>
   MAX_DEPTH < 11 \<and>
   normaliseType constructorChecker 3 nextProp 11 = (InheritedMember ''constructor'', []) \<and>
   normaliseType constructorChecker 3 nextProp 11 \<noteq>
     (TypeString (typeToString constructorChecker 3), [maxDepthWarning]) \<and>
   normaliseType constructorChecker 3 nextProp 0 = (InheritedMember ''constructor'', [])"
  by (simp add: sample_constructor MAX_DEPTH_def
      normaliseType_inherited [of constructorChecker 3, unfolded sample_constructor(1),
        OF sample_constructor(3) sample_constructor(4)])

section \<open>The props parameter of a component\<close>

lemma propsParamOf_find:
  "propsParamOf sigs = map_option (\<lambda>sig. hd (getParameters sig)) (find stopsAt sigs)"
  by (induction sigs) (auto simp: stopsAt_def split: list.splits)

text \<open>
  C4, as amended. The props parameter is the first parameter of the first call signature
  that has at least one parameter and whose first parameter is named props or is its
  only parameter; a signature with two or more parameters whose first is not named
  props is passed over and the later signatures are consulted. With no such signature
  the result is \<^verbatim>\<open>null\<close>.
\<close>

theorem getComponentPropsType_first_stopping_signature:
  "getComponentPropsType chk expSym =
     map_option (\<lambda>sig. hd (getParameters sig))
       (find stopsAt
          (getCallSignatures chk (getTypeOfSymbolAtLocation chk expSym (declarationOf expSym)))) \<and>
   (stopsAt sig \<longleftrightarrow>
      getParameters sig \<noteq> [] \<and>
      (getName (hd (getParameters sig)) = ''props'' \<or> length (getParameters sig) = 1))"
  by (cases "getParameters sig")
     (simp_all add: getComponentPropsType_def propsParamOf_find stopsAt_def)

theorem getComponentPropsType_witness:
  "getComponentPropsType sampleChecker (symbolNamed ''List'' (Some 11)) =
     Some (symbolNamed ''props'' (Some 10)) \<and>
   getComponentPropsType sampleChecker (symbolNamed ''onSelect'' (Some 24)) =
     Some (symbolNamed ''event'' (Some 32)) \<and>
   getComponentPropsType sampleChecker (symbolNamed ''themeNames'' (Some 15)) = None"
  using getComponentPropsType_first_stopping_signature
      [of sampleChecker "symbolNamed ''List'' (Some 11)"]
    getComponentPropsType_first_stopping_signature
      [of sampleChecker "symbolNamed ''onSelect'' (Some 24)"]
    getComponentPropsType_first_stopping_signature
      [of sampleChecker "symbolNamed ''themeNames'' (Some 15)"]
  by (simp add: sampleChecker_def symbolNamed_def declarationOf_def stopsAt_def)

text \<open>
  The specification's wording fails on an overloaded function whose first signature has two
  parameters, neither named props: that signature has a parameter, so that reading stops
  there with no props parameter, and the source goes on to the second signature.
\<close>

theorem getComponentPropsType_consults_later_signature:
  "getCallSignatures sampleChecker
     (getTypeOfSymbolAtLocation sampleChecker (symbolNamed ''onSelect'' (Some 24))
        (declarationOf (symbolNamed ''onSelect'' (Some 24)))) =
     [\<lparr> getParameters = [symbolNamed ''item'' (Some 30), symbolNamed ''index'' (Some 31)],
        getReturnType = 0 \<rparr>,
      \<lparr> getParameters = [symbolNamed ''event'' (Some 32)], getReturnType = 0 \<rparr>] \<and>
   getComponentPropsType sampleChecker (symbolNamed ''onSelect'' (Some 24)) =
     Some (symbolNamed ''event'' (Some 32)) \<and>
   firstSignatureProps
     (getCallSignatures sampleChecker
        (getTypeOfSymbolAtLocation sampleChecker (symbolNamed ''onSelect'' (Some 24))
           (declarationOf (symbolNamed ''onSelect'' (Some 24))))) = None"
  by (simp add: sampleChecker_def symbolNamed_def declarationOf_def getComponentPropsType_def)

section \<open>Components without a props parameter\<close>

lemma getComponentDocs_without_props:
  "getComponentPropsType chk expSym = None \<or>
   (\<exists>propsObj. getComponentPropsType chk expSym = Some propsObj \<and>
      valueDeclaration propsObj = None) \<Longrightarrow>
   getComponentDocs chk expSym = (InterfaceObject [], [])"
  by (auto simp: getComponentDocs_def)

text \<open>
  C5. For the constant export themeNames of the sample module no props parameter is
  found. \<^verbatim>\<open>getComponentDocs\<close> returns the interface object itself, with no
  \<^verbatim>\<open>exportType\<close>, and that object is the export's entry in the mapping; the
  \<^verbatim>\<open>ComponentDoc\<close> the specification and the declared type \<^verbatim>\<open>ExportDoc\<close> ask for would be
  \<^term>\<open>ComponentDoc []\<close>.
\<close>

theorem getComponentDocs_returns_bare_interface:
  "getComponentPropsType sampleChecker (symbolNamed ''themeNames'' (Some 15)) = None \<and>
   getComponentDocs sampleChecker (symbolNamed ''themeNames'' (Some 15)) = (InterfaceObject [], []) \<and>
   exportEntry sampleChecker (symbolNamed ''themeNames'' (Some 15)) =
     (Some (''themeNames'', InterfaceObject []), [])"
  by (simp add: exportEntry_def normaliseExport_def startsWith_def getComponentDocs_def
      getComponentPropsType_def sampleChecker_def symbolNamed_def declarationOf_def)

section \<open>Export isolation\<close>











chapter \<open>Properties of the Rating component\<close>

text \<open>
  C10, as amended. The assertion fails exactly when the rating is a number other than
  NaN that lies outside the interval from 0 to 5, the infinities included; it does not
  fail for a rating in the interval, and it does not fail for NaN, which
  \<^verbatim>\<open>!rating\<close> lets through.
\<close>

theorem ratingAssert_raises_iff:
  "isl (ratingAssert rating) \<longleftrightarrow> rating \<noteq> NaN \<and> \<not> inRatingInterval rating"
  by (cases rating) (auto simp: ratingAssert_def numberFalsy_def jsGreaterEq_def inRatingInterval_def)

theorem ratingAssert_raises_iff_witness:
  "isl (ratingAssert (Finite 6)) \<and> isl (ratingAssert (Finite (- 1))) \<and>
   isl (ratingAssert PosInfinity) \<and> \<not> isl (ratingAssert (Finite (7 / 2))) \<and>
   \<not> isl (ratingAssert NaN)"
  using ratingAssert_raises_iff [of "Finite 6"] ratingAssert_raises_iff [of "Finite (- 1)"]
    ratingAssert_raises_iff [of PosInfinity] ratingAssert_raises_iff [of "Finite (7 / 2)"]
    ratingAssert_raises_iff [of NaN]
  by (simp add: inRatingInterval_def)

text \<open>
  The specification's wording fails at NaN: it is not in the interval, and the assertion
  holds.
\<close>

theorem ratingAssert_passes_NaN:
  "\<not> inRatingInterval NaN \<and> ratingAssert NaN = Inr ()"
  by (simp add: inRatingInterval_def ratingAssert_def numberFalsy_def)

end
